theory Spec2Isabelle
  imports Main
begin

section \<open>JavaScript values used by the screen\<close>

text \<open>
  A JavaScript string is modelled as a \<^typ>\<open>string\<close> whose characters are the code
  units of the string; the model covers the strings whose code units are below 256
  (Latin-1). The accented letter of the Spanish messages of \<open>App.tsx\<close> is the code
  unit \<open>0xF3\<close>, a line break of a template literal is \<open>0x0A\<close>.

  Numbers (latitude, longitude, \<open>Date.now()\<close>) are a type parameter \<open>'n\<close>; the built-in
  conversion \<open>String(x)\<close>, which is also the conversion of a template literal, is a
  parameter of the model.
\<close>

definition isWhiteSpace :: "char \<Rightarrow> bool" where
  \<comment> \<open>WhiteSpace and LineTerminator of ECMAScript below 256: TAB, LF, VT, FF, CR, SP, NBSP.\<close>
  "isWhiteSpace c = (of_char c \<in> {9, 10, 11, 12, 13, 32, 160 :: nat})"

definition trim :: "string \<Rightarrow> string" where
  \<comment> \<open>\<open>String.prototype.trim\<close>: white space is removed from both ends.\<close>
  "trim s = rev (dropWhile isWhiteSpace (rev (dropWhile isWhiteSpace s)))"

definition toLowerCase_unit :: "char \<Rightarrow> char" where
  \<comment> \<open>The upper-case letters below 256 are A to Z and 0xC0 to 0xDE without 0xD7.\<close>
  "toLowerCase_unit c =
     (let n = of_char c :: nat
      in if (65 \<le> n \<and> n \<le> 90) \<or> (192 \<le> n \<and> n \<le> 222 \<and> n \<noteq> 215)
         then char_of (n + 32) else c)"

definition toLowerCase :: "string \<Rightarrow> string" where
  "toLowerCase s = map toLowerCase_unit s"

fun split_from :: "char \<Rightarrow> string \<Rightarrow> string \<Rightarrow> string list" where
  "split_from sep cur [] = [rev cur]"
| "split_from sep cur (c # cs) =
     (if c = sep then rev cur # split_from sep [] cs else split_from sep (c # cur) cs)"

definition split_on :: "char \<Rightarrow> string \<Rightarrow> string list" where
  \<comment> \<open>\<open>s.split(sep)\<close> for a separator of one character: one segment more than there are
      separators, so the array is never empty.\<close>
  "split_on sep s = split_from sep [] s"

definition pop :: "'a list \<Rightarrow> 'a option" where
  \<comment> \<open>The value of \<open>xs.pop()\<close>: the last element, \<open>undefined\<close> (None) for the empty array.\<close>
  "pop xs = (if xs = [] then None else Some (last xs))"

fun digits :: "nat \<Rightarrow> string" where
  "digits n =
     (if n < 10 then [''0123456789'' ! n]
      else digits (n div 10) @ [''0123456789'' ! (n mod 10)])"

declare digits.simps [simp del]

definition String_int :: "int \<Rightarrow> string" where
  \<comment> \<open>\<open>String(x)\<close> of ECMAScript for a number x whose value is an integer of magnitude at
      most \<open>2^53\<close> (every such integer is a number, and its shortest decimal form is
      all of its digits): the decimal digits, after a minus sign for a negative value.
      Beyond \<open>2^53\<close> and on fractions it is not \<open>String(x)\<close>; the model is run with it
      on the integer coordinates 40 and -75 only.\<close>
  "String_int i = (if i < 0 then CHR ''-'' # digits (nat (- i)) else digits (nat i))"

section \<open>Data model\<close>

text \<open>
  \<open>Location.LocationObject\<close> of expo-location; the screen reads \<open>coords.latitude\<close> and
  \<open>coords.longitude\<close> only.
\<close>

record 'n LocationObjectCoords =
  latitude :: 'n
  longitude :: 'n

record 'n LocationObject =
  coords :: "'n LocationObjectCoords"
  timestamp :: 'n

text \<open>
  \<open>SuperForm\<close> is declared in \<open>models/superForm\<close>; its fields are those of the object
  literal of \<open>submitForm\<close> (lines 100 to 105), with \<open>description\<close> optional.
\<close>

record 'n SuperForm =
  foto :: string
  description :: "string option"
  lat :: 'n
  lng :: 'n

text \<open>
  \<open>ResponsePayload\<close> of \<open>models/responses.ts\<close>. The cast of line 128 is unchecked, and
  line 131 reads the message with \<open>?.\<close> and \<open>??\<close>: \<open>message\<close> is None where
  the parsed body has no message (the field is missing or null).
\<close>

record 'n ResponsePayload =
  message :: "string option"
  data :: "'n SuperForm option"
  error :: bool

text \<open>
  The response of \<open>fetch\<close>: the HTTP status and what \<open>response.json().catch(() => null)\<close>
  gives, None for null (the body did not parse). \<open>response.ok\<close> is true for a status
  from 200 to 299.
\<close>

record 'n Response =
  status :: nat
  json :: "'n ResponsePayload option"

definition ok :: "'n Response \<Rightarrow> bool" where
  "ok response = (200 \<le> status response \<and> status response \<le> 299)"

text \<open>A thrown value: an \<open>Error\<close> instance with its message, or any other value.\<close>

datatype thrown = Error string | NotAnError

datatype 'n fetch_outcome = FetchRejects thrown | FetchResolves "'n Response"

datatype PermissionStatus = granted | denied | undetermined

text \<open>
  \<open>ImagePicker.ImagePickerResult\<close>: cancelled, or not cancelled with its assets; the
  promise of \<open>launchCameraAsync\<close> may also reject.
\<close>

record ImagePickerAsset =
  uri :: string

datatype ImagePickerResult = Canceled | Assets "ImagePickerAsset list"

datatype camera_outcome = CameraRejects | CameraResolves ImagePickerResult

text \<open>The four pieces of state of \<open>App\<close> (lines 21 to 24).\<close>

record 'n state =
  imageUri :: "string option"
  description :: string
  location :: "'n LocationObject option"
  isSubmitting :: bool


section \<open>Effects\<close>

text \<open>
  A handler returns the state it leaves and the effects it performed, in program order.
  An alert carries its title, its message and its buttons (none for the two-argument
  call, which shows a button without handler); a button carries its \<open>onPress\<close>.
\<close>

datatype on_press = ClearForm

datatype part = TextPart string | FilePart string string string

type_synonym form_data = "(string \<times> part) list"

datatype 'n event =
    Alert string string "(string \<times> on_press) list"
  | RequestCameraPermissions
  | RequestMediaLibraryPermissions
  | RequestForegroundPermissions
  | LaunchCamera
  | GetCurrentPosition
  | Fetch string form_data
  | SetImageUri "string option"
  | SetDescription string
  | SetLocation "'n LocationObject option"
  | SetIsSubmitting bool

fun apply_event :: "'n event \<Rightarrow> 'n state \<Rightarrow> 'n state" where
  "apply_event (SetImageUri v) s = s\<lparr>imageUri := v\<rparr>"
| "apply_event (SetDescription v) s = s\<lparr>state.description := v\<rparr>"
| "apply_event (SetLocation v) s = s\<lparr>location := v\<rparr>"
| "apply_event (SetIsSubmitting v) s = s\<lparr>isSubmitting := v\<rparr>"
| "apply_event _ s = s"

definition replay :: "'n event list \<Rightarrow> 'n state \<Rightarrow> 'n state" where
  \<comment> \<open>The state after the setters of a trace.\<close>
  "replay evs s = fold apply_event evs s"

fun is_alert :: "'n event \<Rightarrow> bool" where
  "is_alert (Alert t m bs) = True"
| "is_alert _ = False"

fun is_fetch :: "'n event \<Rightarrow> bool" where
  "is_fetch (Fetch u b) = True"
| "is_fetch _ = False"

definition alerts :: "'n event list \<Rightarrow> 'n event list" where
  "alerts evs = filter is_alert evs"

definition fetches :: "'n event list \<Rightarrow> 'n event list" where
  "fetches evs = filter is_fetch evs"

text \<open>
  What the built-ins and the constants file give: \<open>String(x)\<close> on numbers and the
  endpoint of \<open>constants/endpoints\<close>.
\<close>

record 'n platform =
  String_of_number :: "'n \<Rightarrow> string"
  CREATE_SUPERFORM_ENDPOINT :: string

section \<open>The handlers of \<open>App.tsx\<close>\<close>

subsection \<open>requestPermissions (lines 30 to 46)\<close>

definition requestPermissions ::
  "PermissionStatus \<Rightarrow> PermissionStatus \<Rightarrow> PermissionStatus \<Rightarrow> 'n state \<Rightarrow> 'n state \<times> 'n event list"
where
  "requestPermissions cameraPermission mediaLibraryPermission locationPermission s =
     (s, [RequestCameraPermissions, RequestMediaLibraryPermissions, RequestForegroundPermissions] @
         (if cameraPermission \<noteq> granted \<or> mediaLibraryPermission \<noteq> granted \<or>
             locationPermission \<noteq> granted
          then [Alert ''Permisos requeridos''
                  (''Esta aplicaci'' @ [CHR 0xF3] @ ''n necesita permisos de c'' @ [CHR 0xE1] @
                   ''mara y ubicaci'' @ [CHR 0xF3] @ ''n para funcionar correctamente.'') []]
          else []))"

subsection \<open>getCurrentLocation (lines 67 to 78)\<close>

text \<open>
  \<open>position\<close> is what \<open>Location.getCurrentPositionAsync\<close> settles to: the fix, or None
  when the promise rejects.
\<close>

definition getCurrentLocation ::
  "'n LocationObject option \<Rightarrow> 'n state \<Rightarrow> 'n LocationObject option \<times> 'n state \<times> 'n event list"
where
  "getCurrentLocation position s =
     (case position of
        Some currentLocation \<Rightarrow>
          (Some currentLocation, s\<lparr>location := Some currentLocation\<rparr>,
           [GetCurrentPosition, SetLocation (Some currentLocation)])
      | None \<Rightarrow>
          (None, s,
           [GetCurrentPosition,
            Alert ''Error'' (''No se pudo obtener la ubicaci'' @ [CHR 0xF3] @ ''n'') []]))"

subsection \<open>takePicture (lines 48 to 65)\<close>

text \<open>
  \<open>getCurrentLocation()\<close> of line 60 is called without \<open>await\<close>: \<open>takePicture\<close> returns
  the tasks it started next to its state and effects, and a started task runs later, on
  the state of that moment.
\<close>

datatype task = PrefetchLocation

definition takePicture :: "camera_outcome \<Rightarrow> 'n state \<Rightarrow> 'n state \<times> 'n event list \<times> task list" where
  "takePicture camera s =
     (case camera of
        CameraRejects \<Rightarrow> (s, [LaunchCamera, Alert ''Error'' ''No se pudo tomar la foto'' []], [])
      | CameraResolves Canceled \<Rightarrow> (s, [LaunchCamera], [])
      | CameraResolves (Assets []) \<Rightarrow> (s, [LaunchCamera], [])
      | CameraResolves (Assets (asset # rest)) \<Rightarrow>
          (s\<lparr>imageUri := Some (uri asset)\<rparr>,
           [LaunchCamera, SetImageUri (Some (uri asset))], [PrefetchLocation]))"

fun run_task :: "task \<Rightarrow> 'n LocationObject option \<Rightarrow> 'n state \<Rightarrow> 'n state \<times> 'n event list" where
  "run_task PrefetchLocation position s =
     (case getCurrentLocation position s of (currentLocation, s', evs) \<Rightarrow> (s', evs))"

subsection \<open>submitForm (lines 80 to 164)\<close>

definition fileName :: "'n platform \<Rightarrow> 'n \<Rightarrow> string \<Rightarrow> string" where
  \<comment> \<open>Line 96; \<open>now\<close> is \<open>Date.now()\<close>.\<close>
  "fileName P now imageUri' =
     (case pop (split_on CHR ''/'' imageUri') of
        Some segment \<Rightarrow> segment
      | None \<Rightarrow> ''foto-'' @ String_of_number P now @ ''.jpg'')"

definition fileExtension :: "string \<Rightarrow> string option" where
  \<comment> \<open>Line 97.\<close>
  "fileExtension name = map_option toLowerCase (pop (split_on CHR ''.'' name))"

definition mimeType :: "string \<Rightarrow> string" where
  \<comment> \<open>Line 98.\<close>
  "mimeType name = (if fileExtension name = Some ''png'' then ''image/png'' else ''image/jpeg'')"

definition superFormPayload :: "string \<Rightarrow> string \<Rightarrow> 'n LocationObject \<Rightarrow> 'n SuperForm" where
  \<comment> \<open>Lines 100 to 105; \<open>trimmedDescription || undefined\<close> is None for the empty string.\<close>
  "superFormPayload imageUri' trimmedDescription currentLocation =
     \<lparr>foto = imageUri',
      description = (if trimmedDescription \<noteq> [] then Some trimmedDescription else None),
      lat = latitude (coords currentLocation),
      lng = longitude (coords currentLocation)\<rparr>"

definition body :: "'n platform \<Rightarrow> string \<Rightarrow> string \<Rightarrow> 'n SuperForm \<Rightarrow> string \<Rightarrow> form_data" where
  \<comment> \<open>Lines 107 to 118: the appends of the \<open>FormData\<close>, in order.\<close>
  "body P imageUri' name payload trimmedDescription =
     [(''foto'', FilePart imageUri' name (mimeType name)),
      (''lat'', TextPart (String_of_number P (lat payload))),
      (''lng'', TextPart (String_of_number P (lng payload)))] @
     (if trimmedDescription \<noteq> [] then [(''description'', TextPart trimmedDescription)] else [])"

definition summary :: "'n platform \<Rightarrow> string \<Rightarrow> string \<Rightarrow> 'n SuperForm \<Rightarrow> string" where
  \<comment> \<open>The template literal of lines 137 to 140.\<close>
  "summary P imageUri' trimmedDescription payload =
     ''Foto: '' @ (if imageUri' \<noteq> [] then ''Incluida'' else ''No incluida'') @ [CHR 0x0A] @
     ''Descripci'' @ [CHR 0xF3] @ ''n: '' @
       (if trimmedDescription \<noteq> [] then trimmedDescription
        else ''Sin descripci'' @ [CHR 0xF3] @ ''n'') @ [CHR 0x0A] @
     ''Latitud: '' @ String_of_number P (lat payload) @ [CHR 0x0A] @
     ''Longitud: '' @ String_of_number P (lng payload)"

definition backendMessage :: "'n ResponsePayload option \<Rightarrow> string" where
  \<comment> \<open>Line 131.\<close>
  "backendMessage jsonResponse =
     (case jsonResponse of
        None \<Rightarrow> ''Ocurri'' @ [CHR 0xF3] @ '' un error al enviar el formulario.''
      | Some payload \<Rightarrow>
          (case message payload of
             None \<Rightarrow> ''Ocurri'' @ [CHR 0xF3] @ '' un error al enviar el formulario.''
           | Some m \<Rightarrow> m))"

definition try_block ::
  "'n platform \<Rightarrow> 'n fetch_outcome \<Rightarrow> string \<Rightarrow> string \<Rightarrow> 'n SuperForm \<Rightarrow> form_data \<Rightarrow>
   (thrown + unit) \<times> 'n event list"
where
  \<comment> \<open>Lines 121 to 157: what the block throws (Inl) or that it completes (Inr), with its
      effects. The two \<open>console.log\<close> calls are left out.\<close>
  "try_block P fetched imageUri' trimmedDescription payload body' =
     (case fetched of
        FetchRejects e \<Rightarrow>
          (Inl e, [SetIsSubmitting True, Fetch (CREATE_SUPERFORM_ENDPOINT P) body'])
      | FetchResolves response \<Rightarrow>
          if \<not> ok response
          then (Inl (Error (backendMessage (json response))),
                [SetIsSubmitting True, Fetch (CREATE_SUPERFORM_ENDPOINT P) body'])
          else (Inr (),
                [SetIsSubmitting True, Fetch (CREATE_SUPERFORM_ENDPOINT P) body',
                 Alert ''Formulario enviado'' (summary P imageUri' trimmedDescription payload)
                   [(''OK'', ClearForm)]]))"

definition catch_block :: "thrown \<Rightarrow> 'n event list" where
  \<comment> \<open>Lines 158 to 160.\<close>
  "catch_block e =
     [Alert ''Error'' (case e of Error m \<Rightarrow> m | NotAnError \<Rightarrow> ''No se pudo enviar el formulario.'') []]"

definition submitForm ::
  "'n platform \<Rightarrow> 'n \<Rightarrow> 'n LocationObject option \<Rightarrow> 'n fetch_outcome \<Rightarrow> 'n state \<Rightarrow> 'n state \<times> 'n event list"
where
  \<comment> \<open>\<open>imageUri\<close> and \<open>description\<close> are read from the state the handler was created in
      (its closure); \<open>position\<close> is what the location call of line 88 settles to,
      \<open>fetched\<close> what \<open>fetch\<close> settles to.\<close>
  "submitForm P now position fetched s =
     (case imageUri s of
        None \<Rightarrow> (s, [Alert ''Error'' ''Debes tomar una foto antes de enviar el formulario'' []])
      | Some imageUri' \<Rightarrow>
          if imageUri' = []
          then (s, [Alert ''Error'' ''Debes tomar una foto antes de enviar el formulario'' []])
          else
            (case getCurrentLocation position s of
               (None, s1, evs1) \<Rightarrow>
                 (s1, evs1 @ [Alert ''Error'' (''No se pudo obtener la ubicaci'' @ [CHR 0xF3] @ ''n'') []])
             | (Some currentLocation, s1, evs1) \<Rightarrow>
                 (let trimmedDescription = trim (state.description s);
                      name = fileName P now imageUri';
                      payload = superFormPayload imageUri' trimmedDescription currentLocation;
                      body' = body P imageUri' name payload trimmedDescription
                  in (case try_block P fetched imageUri' trimmedDescription payload body' of
                        (Inl e, evs2) \<Rightarrow>
                          (s1\<lparr>isSubmitting := False\<rparr>,
                           evs1 @ evs2 @ catch_block e @ [SetIsSubmitting False])
                      | (Inr u, evs2) \<Rightarrow>
                          (s1\<lparr>isSubmitting := False\<rparr>,
                           evs1 @ evs2 @ [SetIsSubmitting False])))))"

subsection \<open>The buttons (lines 141 to 151 and 209 to 216)\<close>

fun run_on_press :: "on_press \<Rightarrow> 'n state \<Rightarrow> 'n state \<times> 'n event list" where
  \<comment> \<open>The \<open>onPress\<close> of the OK button of the confirmation (lines 144 to 149).\<close>
  "run_on_press ClearForm s =
     (s\<lparr>imageUri := None, state.description := [], location := None\<rparr>,
      [SetImageUri None, SetDescription [], SetLocation None])"

fun press :: "string \<Rightarrow> 'n event \<Rightarrow> 'n state \<Rightarrow> 'n state \<times> 'n event list" where
  \<comment> \<open>The user presses the button \<open>label\<close> of a shown alert.\<close>
  "press label (Alert t m buttons) s =
     (case map_of buttons label of Some h \<Rightarrow> run_on_press h s | None \<Rightarrow> (s, []))"
| "press label e s = (s, [])"


subsection \<open>submitForm between its two awaits\<close>

text \<open>
  \<open>submitForm\<close> is an async function: it runs from the press to the location call of
  line 88 (line 69 of \<open>getCurrentLocation\<close>), is resumed when the position settles and
  runs to the \<open>fetch\<close> of line 123, and is resumed again when the response settles.
  Between two segments other handlers run. A suspended run keeps the values of its
  closure: the image and the description at the press, then the image, the trimmed
  description and the payload.
\<close>

type_synonym at_location = "string \<times> string"

type_synonym 'n at_response = "string \<times> string \<times> 'n SuperForm"

definition submitForm_start :: "'n state \<Rightarrow> at_location option \<times> 'n event list" where
  \<comment> \<open>Lines 82 to 88, to the call of line 69.\<close>
  "submitForm_start s =
     (case imageUri s of
        None \<Rightarrow> (None, [Alert ''Error'' ''Debes tomar una foto antes de enviar el formulario'' []])
      | Some imageUri' \<Rightarrow>
          if imageUri' = []
          then (None, [Alert ''Error'' ''Debes tomar una foto antes de enviar el formulario'' []])
          else (Some (imageUri', state.description s), [GetCurrentPosition]))"

definition submitForm_located ::
  "'n platform \<Rightarrow> 'n \<Rightarrow> 'n LocationObject option \<Rightarrow> at_location \<Rightarrow> 'n state \<Rightarrow>
   'n state \<times> 'n event list \<times> 'n at_response option"
where
  \<comment> \<open>Lines 72 to 77 and 90 to 126, on the state of the moment the position settles.\<close>
  "submitForm_located P now position closure s =
     (case closure of (imageUri', description') \<Rightarrow>
        (case position of
           None \<Rightarrow>
             (s, [Alert ''Error'' (''No se pudo obtener la ubicaci'' @ [CHR 0xF3] @ ''n'') [],
                  Alert ''Error'' (''No se pudo obtener la ubicaci'' @ [CHR 0xF3] @ ''n'') []],
              None)
         | Some currentLocation \<Rightarrow>
             (let trimmedDescription = trim description';
                  name = fileName P now imageUri';
                  payload = superFormPayload imageUri' trimmedDescription currentLocation;
                  body' = body P imageUri' name payload trimmedDescription
              in (s\<lparr>location := Some currentLocation, isSubmitting := True\<rparr>,
                  [SetLocation (Some currentLocation), SetIsSubmitting True,
                   Fetch (CREATE_SUPERFORM_ENDPOINT P) body'],
                  Some (imageUri', trimmedDescription, payload)))))"

definition submitForm_settled ::
  "'n platform \<Rightarrow> 'n fetch_outcome \<Rightarrow> 'n at_response \<Rightarrow> 'n state \<Rightarrow> 'n state \<times> 'n event list"
where
  \<comment> \<open>Lines 128 to 163, on the state of the moment the response settles.\<close>
  "submitForm_settled P fetched closure s =
     (case closure of (imageUri', trimmedDescription, payload) \<Rightarrow>
        (case fetched of
           FetchRejects e \<Rightarrow> (s\<lparr>isSubmitting := False\<rparr>, catch_block e @ [SetIsSubmitting False])
         | FetchResolves response \<Rightarrow>
             if \<not> ok response
             then (s\<lparr>isSubmitting := False\<rparr>,
                   catch_block (Error (backendMessage (json response))) @ [SetIsSubmitting False])
             else (s\<lparr>isSubmitting := False\<rparr>,
                   [Alert ''Formulario enviado'' (summary P imageUri' trimmedDescription payload)
                      [(''OK'', ClearForm)],
                    SetIsSubmitting False])))"

subsection \<open>The screen as a transition system\<close>








definition request :: "'n platform \<Rightarrow> 'n \<Rightarrow> string \<Rightarrow> string \<Rightarrow> 'n LocationObject \<Rightarrow> 'n event" where
  \<comment> \<open>The POST of lines 123 to 126 for the image \<open>u\<close>, the description \<open>d\<close> as typed and
      the fix \<open>cur\<close>.\<close>
  "request P now u d cur =
     Fetch (CREATE_SUPERFORM_ENDPOINT P)
       (body P u (fileName P now u) (superFormPayload u (trim d) cur) (trim d))"

section \<open>The extension of a file name, as the specification words it\<close>

text \<open>
  The specification infers the MIME type from "the file extension": \<open>png\<close> gives
  \<open>image/png\<close>, every other extension, or none, gives \<open>image/jpeg\<close>. Read on its own, a
  name has an extension when it has a dot, and the extension is what follows the last
  dot. These two definitions follow that wording, for comparison with \<open>mimeType\<close>.
\<close>

definition spec_extension :: "string \<Rightarrow> string option" where
  "spec_extension name =
     (if CHR ''.'' \<in> set name then Some (rev (takeWhile (\<lambda>c. c \<noteq> CHR ''.'') (rev name)))
      else None)"

definition spec_mimeType :: "string \<Rightarrow> string" where
  "spec_mimeType name = (if spec_extension name = Some ''png'' then ''image/png'' else ''image/jpeg'')"

section \<open>A run on concrete values\<close>

definition platform0 :: "int platform" where
  "platform0 = \<lparr>String_of_number = String_int, CREATE_SUPERFORM_ENDPOINT = ''https://host/superform''\<rparr>"

definition fix0 :: "int LocationObject" where
  "fix0 = \<lparr>coords = \<lparr>latitude = 40, longitude = - 75\<rparr>, timestamp = 1700000000000\<rparr>"

definition session0 :: "int state" where
  "session0 = \<lparr>imageUri = Some ''photo.jpg'', description = ''  Bridge view  '', location = None,
               isSubmitting = False\<rparr>"


section \<open>Strings: the last segment of a split, an empty trim\<close>

lemma digits_small: "n < 10 \<Longrightarrow> digits n = [''0123456789'' ! n]"
  by (simp add: digits.simps)

lemma digits_big: "\<not> n < 10 \<Longrightarrow> digits n = digits (n div 10) @ [''0123456789'' ! (n mod 10)]"
  by (subst digits.simps) simp

lemma char_of_eq_iff: "char_of (n::nat) = c \<longleftrightarrow> n mod 256 = of_char c"
  by (metis char_of_char of_char_of)

lemma split_from_nonempty: "split_from sep cur cs \<noteq> []"
  by (induction cs arbitrary: cur) auto

lemma after_last_notin:
  "sep \<notin> set xs \<Longrightarrow> rev (takeWhile (\<lambda>c. c \<noteq> sep) (rev xs)) = xs"
proof -
  assume "sep \<notin> set xs"
  then have "takeWhile (\<lambda>c. c \<noteq> sep) (rev xs) = rev xs"
    by (auto simp: takeWhile_eq_all_conv)
  then show ?thesis by (simp only: rev_rev_ident)
qed

lemma after_last_Cons_in:
  "sep \<in> set xs \<Longrightarrow>
   rev (takeWhile (\<lambda>c. c \<noteq> sep) (rev (x # xs))) = rev (takeWhile (\<lambda>c. c \<noteq> sep) (rev xs))"
proof -
  assume "sep \<in> set xs"
  then have "takeWhile (\<lambda>c. c \<noteq> sep) (rev xs @ [x]) = takeWhile (\<lambda>c. c \<noteq> sep) (rev xs)"
    by (intro takeWhile_append1[where x = sep]) auto
  then show ?thesis by simp
qed

lemma after_last_sep_Cons:
  "sep \<notin> set xs \<Longrightarrow> rev (takeWhile (\<lambda>c. c \<noteq> sep) (rev (sep # xs))) = xs"
proof -
  assume "sep \<notin> set xs"
  then have "takeWhile (\<lambda>c. c \<noteq> sep) (rev xs @ [sep]) = rev xs @ takeWhile (\<lambda>c. c \<noteq> sep) [sep]"
    by (intro takeWhile_append2) auto
  then show ?thesis by simp
qed

lemma split_from_last:
  "last (split_from sep cur cs) =
     (if sep \<in> set cs then [] else rev cur) @ rev (takeWhile (\<lambda>c. c \<noteq> sep) (rev cs))"
proof (induction cs arbitrary: cur)
  case Nil
  show ?case by simp
next
  case (Cons c cs)
  consider (sep) "c = sep" | (inside) "c \<noteq> sep" "sep \<in> set cs" | (none) "c \<noteq> sep" "sep \<notin> set cs"
    by blast
  then show ?case
  proof cases
    case sep
    have "last (split_from sep cur (c # cs)) = last (split_from sep [] cs)"
      using sep by (simp add: split_from_nonempty)
    also have "\<dots> = rev (takeWhile (\<lambda>c. c \<noteq> sep) (rev cs))"
      by (simp add: Cons.IH)
    also have "\<dots> = rev (takeWhile (\<lambda>c. c \<noteq> sep) (rev (sep # cs)))"
      by (cases "sep \<in> set cs") (simp_all add: after_last_Cons_in after_last_sep_Cons after_last_notin del: rev.simps)
    finally show ?thesis using sep by simp
  next
    case inside
    have "last (split_from sep cur (c # cs)) = last (split_from sep (c # cur) cs)"
      using inside by simp
    also have "\<dots> = rev (takeWhile (\<lambda>c. c \<noteq> sep) (rev cs))"
      using inside by (simp add: Cons.IH)
    also have "\<dots> = rev (takeWhile (\<lambda>c. c \<noteq> sep) (rev (c # cs)))"
      using inside by (simp only: after_last_Cons_in)
    finally show ?thesis using inside by simp
  next
    case none
    then have notin: "sep \<notin> set (c # cs)" by auto
    have "last (split_from sep cur (c # cs)) = last (split_from sep (c # cur) cs)"
      using none by simp
    also have "\<dots> = rev (c # cur) @ cs"
      using none by (simp add: Cons.IH after_last_notin del: rev.simps)
    also have "\<dots> = rev cur @ rev (takeWhile (\<lambda>c. c \<noteq> sep) (rev (c # cs)))"
      by (simp only: after_last_notin[OF notin]) simp
    finally show ?thesis using notin by (simp del: rev.simps set_simps)
  qed
qed

lemma pop_split_on:
  "pop (split_on sep cs) = Some (rev (takeWhile (\<lambda>c. c \<noteq> sep) (rev cs)))"
  by (simp add: pop_def split_on_def split_from_nonempty split_from_last)

lemma all_dropWhile_iff: "(\<forall>x\<in>set (dropWhile P xs). P x) \<longleftrightarrow> (\<forall>x\<in>set xs. P x)"
proof
  assume a: "\<forall>x\<in>set (dropWhile P xs). P x"
  have "dropWhile P xs = []"
  proof (rule ccontr)
    assume "dropWhile P xs \<noteq> []"
    then have "\<not> P (hd (dropWhile P xs))" "hd (dropWhile P xs) \<in> set (dropWhile P xs)"
      by (simp_all add: hd_dropWhile)
    with a show False by blast
  qed
  then show "\<forall>x\<in>set xs. P x" by (simp add: dropWhile_eq_Nil_conv)
next
  assume "\<forall>x\<in>set xs. P x"
  then show "\<forall>x\<in>set (dropWhile P xs). P x" by (meson set_dropWhileD)
qed

lemma trim_empty_iff: "trim d = [] \<longleftrightarrow> (\<forall>c\<in>set d. isWhiteSpace c)"
  by (simp add: trim_def dropWhile_eq_Nil_conv all_dropWhile_iff)

section \<open>The five paths of submitForm\<close>

lemma submitForm_no_image:
  "imageUri s = None \<or> imageUri s = Some [] \<Longrightarrow>
   submitForm P now position fetched s =
     (s, [Alert ''Error'' ''Debes tomar una foto antes de enviar el formulario'' []])"
  by (auto simp: submitForm_def)

lemma submitForm_no_location:
  "imageUri s = Some u \<Longrightarrow> u \<noteq> [] \<Longrightarrow>
   submitForm P now None fetched s =
     (s, [GetCurrentPosition,
          Alert ''Error'' (''No se pudo obtener la ubicaci'' @ [CHR 0xF3] @ ''n'') [],
          Alert ''Error'' (''No se pudo obtener la ubicaci'' @ [CHR 0xF3] @ ''n'') []])"
  by (simp add: submitForm_def getCurrentLocation_def)

lemma submitForm_rejects:
  "imageUri s = Some u \<Longrightarrow> u \<noteq> [] \<Longrightarrow>
   submitForm P now (Some cur) (FetchRejects e) s =
     (s\<lparr>location := Some cur, isSubmitting := False\<rparr>,
      [GetCurrentPosition, SetLocation (Some cur), SetIsSubmitting True,
       request P now u (state.description s) cur,
       Alert ''Error'' (case e of Error m \<Rightarrow> m | NotAnError \<Rightarrow> ''No se pudo enviar el formulario.'') [],
       SetIsSubmitting False])"
  by (simp add: submitForm_def getCurrentLocation_def try_block_def catch_block_def request_def Let_def)

lemma submitForm_http_error:
  "imageUri s = Some u \<Longrightarrow> u \<noteq> [] \<Longrightarrow> \<not> ok response \<Longrightarrow>
   submitForm P now (Some cur) (FetchResolves response) s =
     (s\<lparr>location := Some cur, isSubmitting := False\<rparr>,
      [GetCurrentPosition, SetLocation (Some cur), SetIsSubmitting True,
       request P now u (state.description s) cur,
       Alert ''Error'' (backendMessage (json response)) [],
       SetIsSubmitting False])"
  by (simp add: submitForm_def getCurrentLocation_def try_block_def catch_block_def request_def Let_def)

lemma submitForm_http_ok:
  "imageUri s = Some u \<Longrightarrow> u \<noteq> [] \<Longrightarrow> ok response \<Longrightarrow>
   submitForm P now (Some cur) (FetchResolves response) s =
     (s\<lparr>location := Some cur, isSubmitting := False\<rparr>,
      [GetCurrentPosition, SetLocation (Some cur), SetIsSubmitting True,
       request P now u (state.description s) cur,
       Alert ''Formulario enviado''
         (summary P u (trim (state.description s)) (superFormPayload u (trim (state.description s)) cur))
         [(''OK'', ClearForm)],
       SetIsSubmitting False])"
  by (simp add: submitForm_def getCurrentLocation_def try_block_def catch_block_def request_def Let_def)

lemma submitForm_cases:
  obtains (no_image) "imageUri s = None \<or> imageUri s = Some []"
  | (no_location) u where "imageUri s = Some u" "u \<noteq> []" "position = None"
  | (rejects) u cur e where "imageUri s = Some u" "u \<noteq> []" "position = Some cur" "fetched = FetchRejects e"
  | (http_error) u cur r where "imageUri s = Some u" "u \<noteq> []" "position = Some cur"
      "fetched = FetchResolves r" "\<not> ok r"
  | (http_ok) u cur r where "imageUri s = Some u" "u \<noteq> []" "position = Some cur"
      "fetched = FetchResolves r" "ok r"
proof (cases "imageUri s")
  case None
  then show ?thesis using no_image by simp
next
  case (Some u)
  show ?thesis
  proof (cases "u = []")
    case True
    with Some show ?thesis using no_image by simp
  next
    case False
    show ?thesis
    proof (cases position)
      case None
      with Some False show ?thesis using no_location by simp
    next
      case cur: (Some cur)
      show ?thesis
      proof (cases fetched)
        case (FetchRejects e)
        with Some False cur show ?thesis using rejects by simp
      next
        case (FetchResolves r)
        with Some False cur show ?thesis using http_error http_ok by (cases "ok r") simp_all
      qed
    qed
  qed
qed

lemma request_not_setter [simp]: "request P now u d cur \<noteq> SetIsSubmitting v"
  by (simp add: request_def)

lemma is_alert_request [simp]: "\<not> is_alert (request P now u d cur)"
  by (simp add: request_def)

lemma is_fetch_request [simp]: "is_fetch (request P now u d cur)"
  by (simp add: request_def)

section \<open>Traces and the in-flight flag\<close>




section \<open>The segments of submitForm and the runs of the screen\<close>

text \<open>
  Run without interruption, the three segments are \<open>submitForm\<close>. In a configuration
  with at most one suspended run, where the flag is set while a response is awaited,
  every action keeps that, as long as no press is made while a run waits for its
  position; and a POST is issued only when no response is awaited.
\<close>

lemma submitForm_in_segments:
  "submitForm P now position fetched s =
     (case submitForm_start s of
        (None, evs0) \<Rightarrow> (s, evs0)
      | (Some closure, evs0) \<Rightarrow>
          (case submitForm_located P now position closure s of
             (s1, evs1, None) \<Rightarrow> (s1, evs0 @ evs1)
           | (s1, evs1, Some r) \<Rightarrow>
               (case submitForm_settled P fetched r s1 of (s2, evs2) \<Rightarrow> (s2, evs0 @ evs1 @ evs2))))"
  by (cases rule: submitForm_cases[where s = s and position = position and fetched = fetched])
     (auto simp: submitForm_no_image submitForm_no_location submitForm_rejects submitForm_http_error
        submitForm_http_ok submitForm_start_def submitForm_located_def submitForm_settled_def
        request_def catch_block_def Let_def)








section \<open>The paths that alert once\<close>

lemma single_alert_elsewhere:
  "length (alerts (snd (requestPermissions c m l s))) = (if c = granted \<and> m = granted \<and> l = granted then 0 else 1)"
  "length (alerts (fst (snd (takePicture CameraRejects s)))) = 1"
  "length (alerts (snd (run_task PrefetchLocation None s))) = 1"
  "imageUri s = None \<Longrightarrow> length (alerts (snd (submitForm P now position fetched s))) = 1"
  "imageUri s = Some u \<Longrightarrow> u \<noteq> [] \<Longrightarrow>
     length (alerts (snd (submitForm P now (Some cur) (FetchRejects e) s))) = 1"
  "imageUri s = Some u \<Longrightarrow> u \<noteq> [] \<Longrightarrow> \<not> ok response \<Longrightarrow>
     length (alerts (snd (submitForm P now (Some cur) (FetchResolves response) s))) = 1"
  by (simp_all add: requestPermissions_def takePicture_def getCurrentLocation_def alerts_def
        submitForm_no_image submitForm_rejects submitForm_http_error)

section \<open>The claims\<close>




text \<open>
  C2. Whenever \<open>submitForm\<close> sets the in-flight flag, it clears it before it returns: the
  last effect is \<open>setIsSubmitting(false)\<close> and the state left has the flag false. The
  witness runs the three exits: a rejected fetch, an HTTP error status, a success.
\<close>

theorem isSubmitting_cleared:
  assumes "SetIsSubmitting True \<in> set (snd (submitForm P now position fetched s))"
  shows "last (snd (submitForm P now position fetched s)) = SetIsSubmitting False \<and>
         \<not> isSubmitting (fst (submitForm P now position fetched s)) \<and>
         \<not> isSubmitting (replay (snd (submitForm P now position fetched s)) s)"
proof (cases rule: submitForm_cases[where s = s and position = position and fetched = fetched])
  case no_image
  with assms show ?thesis by (simp add: submitForm_no_image)
next
  case (no_location u)
  with assms show ?thesis by (simp add: submitForm_no_location)
next
  case (rejects u cur e)
  then show ?thesis by (simp add: submitForm_rejects replay_def)
next
  case (http_error u cur r)
  then show ?thesis by (simp add: submitForm_http_error replay_def)
next
  case (http_ok u cur r)
  then show ?thesis by (simp add: submitForm_http_ok replay_def)
qed

theorem isSubmitting_cleared_witness:
  "SetIsSubmitting True \<in>
     set (snd (submitForm platform0 0 (Some fix0) (FetchRejects (Error ''Network request failed'')) session0)) \<and>
   last (snd (submitForm platform0 0 (Some fix0) (FetchRejects (Error ''Network request failed'')) session0))
     = SetIsSubmitting False \<and>
   SetIsSubmitting True \<in>
     set (snd (submitForm platform0 0 (Some fix0) (FetchResolves \<lparr>status = 500, json = None\<rparr>) session0)) \<and>
   last (snd (submitForm platform0 0 (Some fix0) (FetchResolves \<lparr>status = 500, json = None\<rparr>) session0))
     = SetIsSubmitting False \<and>
   SetIsSubmitting True \<in>
     set (snd (submitForm platform0 0 (Some fix0) (FetchResolves \<lparr>status = 200, json = None\<rparr>) session0)) \<and>
   last (snd (submitForm platform0 0 (Some fix0) (FetchResolves \<lparr>status = 200, json = None\<rparr>) session0))
     = SetIsSubmitting False"
proof -
  have img: "imageUri session0 = Some ''photo.jpg''" "''photo.jpg'' \<noteq> []"
    by (simp_all add: session0_def)
  have h1: "SetIsSubmitting True \<in>
     set (snd (submitForm platform0 0 (Some fix0) (FetchRejects (Error ''Network request failed'')) session0))"
    by (simp add: submitForm_rejects [OF img])
  have h2: "SetIsSubmitting True \<in>
     set (snd (submitForm platform0 0 (Some fix0) (FetchResolves \<lparr>status = 500, json = None\<rparr>) session0))"
    by (simp add: submitForm_http_error [OF img] ok_def)
  have h3: "SetIsSubmitting True \<in>
     set (snd (submitForm platform0 0 (Some fix0) (FetchResolves \<lparr>status = 200, json = None\<rparr>) session0))"
    by (simp add: submitForm_http_ok [OF img] ok_def)
  show ?thesis
    using h1 h2 h3 isSubmitting_cleared [OF h1] isSubmitting_cleared [OF h2] isSubmitting_cleared [OF h3]
    by blast
qed

text \<open>
  C5. With a photo and a location fetch that fails at submit time, the submission is
  rejected before any network call. The location is fetched at every submit, as the
  first effect, the stored location is not read, and the coordinates sent are those of
  this fetch.
\<close>

theorem location_required:
  assumes "imageUri s = Some u" and "u \<noteq> []"
  shows "submitForm P now None fetched s =
           (s, [GetCurrentPosition,
                Alert ''Error'' (''No se pudo obtener la ubicaci'' @ [CHR 0xF3] @ ''n'') [],
                Alert ''Error'' (''No se pudo obtener la ubicaci'' @ [CHR 0xF3] @ ''n'') []]) \<and>
         fetches (snd (submitForm P now None fetched s)) = [] \<and>
         hd (snd (submitForm P now position fetched s)) = GetCurrentPosition \<and>
         snd (submitForm P now position fetched (s\<lparr>location := l\<rparr>)) =
           snd (submitForm P now position fetched s) \<and>
         fetches (snd (submitForm P now (Some cur) fetched s)) =
           [request P now u (state.description s) cur]"
proof -
  have a: "submitForm P now None fetched s =
           (s, [GetCurrentPosition,
                Alert ''Error'' (''No se pudo obtener la ubicaci'' @ [CHR 0xF3] @ ''n'') [],
                Alert ''Error'' (''No se pudo obtener la ubicaci'' @ [CHR 0xF3] @ ''n'') []])"
    using assms by (rule submitForm_no_location)
  have b: "fetches (snd (submitForm P now None fetched s)) = []"
    by (simp add: a fetches_def)
  have c: "hd (snd (submitForm P now position fetched s)) = GetCurrentPosition"
    using assms
    by (cases rule: submitForm_cases[where s = s and position = position and fetched = fetched])
       (simp_all add: submitForm_no_location submitForm_rejects submitForm_http_error submitForm_http_ok)
  have img: "imageUri (s\<lparr>location := l\<rparr>) = Some u" using assms by simp
  have d: "snd (submitForm P now position fetched (s\<lparr>location := l\<rparr>)) =
           snd (submitForm P now position fetched s)"
    using assms
    by (cases rule: submitForm_cases[where s = s and position = position and fetched = fetched])
       (simp_all add: submitForm_no_location [OF img] submitForm_rejects [OF img]
          submitForm_http_error [OF img] submitForm_http_ok [OF img]
          submitForm_no_location submitForm_rejects submitForm_http_error submitForm_http_ok)
  have e: "fetches (snd (submitForm P now (Some cur) fetched s)) =
           [request P now u (state.description s) cur]"
    using assms
    by (cases rule: submitForm_cases[where s = s and position = "Some cur" and fetched = fetched])
       (simp_all add: submitForm_rejects submitForm_http_error submitForm_http_ok fetches_def)
  from a b c d e show ?thesis by simp
qed

theorem location_required_witness:
  "imageUri (session0\<lparr>location := Some fix0\<rparr>) = Some ''photo.jpg'' \<and> ''photo.jpg'' \<noteq> [] \<and>
   submitForm platform0 0 None (FetchResolves \<lparr>status = 200, json = None\<rparr>)
       (session0\<lparr>location := Some fix0\<rparr>) =
     (session0\<lparr>location := Some fix0\<rparr>,
      [GetCurrentPosition,
       Alert ''Error'' (''No se pudo obtener la ubicaci'' @ [CHR 0xF3] @ ''n'') [],
       Alert ''Error'' (''No se pudo obtener la ubicaci'' @ [CHR 0xF3] @ ''n'') []]) \<and>
   fetches (snd (submitForm platform0 0 None (FetchResolves \<lparr>status = 200, json = None\<rparr>)
       (session0\<lparr>location := Some fix0\<rparr>))) = []"
proof -
  have img: "imageUri (session0\<lparr>location := Some fix0\<rparr>) = Some ''photo.jpg''" "''photo.jpg'' \<noteq> []"
    by (simp_all add: session0_def)
  show ?thesis
    using img location_required [OF img, of platform0 0 "FetchResolves \<lparr>status = 200, json = None\<rparr>"
                                        None None fix0]
    by (simp add: fetches_def)
qed

text \<open>
  C3. A submit whose response has a status outside 200 to 299 shows the message of the
  parsed body where it has one (\<open>{message: "X", error: true}\<close> shows exactly X), and the
  fixed fallback where the body did not parse (the parse gives null and throws nothing).
  The confirmation is shown exactly when the status is in 200 to 299, whatever the body.
\<close>

theorem http_failure_message:
  assumes "imageUri s = Some u" and "u \<noteq> []"
  shows "(\<not> (200 \<le> st \<and> st \<le> 299) \<and> j = Some p \<and> message p = Some X \<longrightarrow>
            alerts (snd (submitForm P now (Some cur) (FetchResolves \<lparr>status = st, json = j\<rparr>) s)) =
              [Alert ''Error'' X []]) \<and>
         (\<not> (200 \<le> st \<and> st \<le> 299) \<and> j = None \<longrightarrow>
            alerts (snd (submitForm P now (Some cur) (FetchResolves \<lparr>status = st, json = j\<rparr>) s)) =
              [Alert ''Error'' (''Ocurri'' @ [CHR 0xF3] @ '' un error al enviar el formulario.'') []]) \<and>
         (alerts (snd (submitForm P now (Some cur) (FetchResolves \<lparr>status = st, json = j\<rparr>) s)) =
            [Alert ''Formulario enviado''
               (summary P u (trim (state.description s)) (superFormPayload u (trim (state.description s)) cur))
               [(''OK'', ClearForm)]])
           = (200 \<le> st \<and> st \<le> 299)"
proof (cases "ok \<lparr>status = st, json = j\<rparr>")
  case True
  then have "200 \<le> st \<and> st \<le> 299" by (simp add: ok_def)
  then show ?thesis
    using assms True by (simp add: submitForm_http_ok alerts_def)
next
  case False
  then have st: "\<not> (200 \<le> st \<and> st \<le> 299)" by (simp add: ok_def)
  then have nok: "\<not> ok \<lparr>status = st, json = j'\<rparr>" for j' :: "'a ResponsePayload option"
    by (simp add: ok_def)
  have "alerts (snd (submitForm P now (Some cur) (FetchResolves \<lparr>status = st, json = j'\<rparr>) s)) =
          [Alert ''Error'' (backendMessage j') []]" for j'
    using assms nok [of j'] by (simp add: submitForm_http_error alerts_def)
  then show ?thesis
    using st by (simp add: backendMessage_def)
qed

theorem http_failure_message_witness:
  "imageUri session0 = Some ''photo.jpg'' \<and> ''photo.jpg'' \<noteq> [] \<and>
   alerts (snd (submitForm platform0 0 (Some fix0)
     (FetchResolves \<lparr>status = 500, json = Some \<lparr>message = Some ''X'', data = None, error = True\<rparr>\<rparr>)
     session0)) = [Alert ''Error'' ''X'' []]"
proof -
  have img: "imageUri session0 = Some ''photo.jpg''" "''photo.jpg'' \<noteq> []"
    by (simp_all add: session0_def)
  show ?thesis
    using img http_failure_message [OF img, of 500 "Some \<lparr>message = Some ''X'', data = None, error = True\<rparr>"
        "\<lparr>message = Some ''X'', data = None, error = True\<rparr>" "''X''" platform0 0 fix0]
    by simp
qed

text \<open>
  C4. The body posted has exactly the fields \<open>foto\<close> (the file part), \<open>lat\<close> and \<open>lng\<close>
  (the string conversions of the fetched latitude and longitude), followed by
  \<open>description\<close> with the trimmed text if and only if the description is not all white
  space. The witness is the example of the specification: 40 and -75 are sent as
  \<open>"40"\<close> and \<open>"-75"\<close>, \<open>"  Bridge view  "\<close> as \<open>"Bridge view"\<close>, and a description of
  white space only is not sent.
\<close>

theorem multipart_fields:
  assumes "imageUri s = Some u" and "u \<noteq> []"
  shows "fetches (snd (submitForm P now (Some cur) fetched s)) =
           [Fetch (CREATE_SUPERFORM_ENDPOINT P)
              ([(''foto'', FilePart u (fileName P now u) (mimeType (fileName P now u))),
                (''lat'', TextPart (String_of_number P (latitude (coords cur)))),
                (''lng'', TextPart (String_of_number P (longitude (coords cur))))] @
               (if \<forall>c\<in>set (state.description s). isWhiteSpace c then []
                else [(''description'', TextPart (trim (state.description s)))]))]"
proof -
  have "fetches (snd (submitForm P now (Some cur) fetched s)) = [request P now u (state.description s) cur]"
    using assms
    by (cases rule: submitForm_cases[where s = s and position = "Some cur" and fetched = fetched])
       (simp_all add: submitForm_rejects submitForm_http_error submitForm_http_ok fetches_def)
  then show ?thesis
    by (simp add: request_def body_def superFormPayload_def trim_empty_iff)
qed

theorem multipart_fields_witness:
  "imageUri session0 = Some ''photo.jpg'' \<and> ''photo.jpg'' \<noteq> [] \<and>
   fetches (snd (submitForm platform0 0 (Some fix0) (FetchResolves \<lparr>status = 200, json = None\<rparr>) session0)) =
     [Fetch ''https://host/superform''
        [(''foto'', FilePart ''photo.jpg'' ''photo.jpg'' ''image/jpeg''),
         (''lat'', TextPart ''40''), (''lng'', TextPart ''-75''),
         (''description'', TextPart ''Bridge view'')]] \<and>
   fetches (snd (submitForm platform0 0 (Some fix0) (FetchResolves \<lparr>status = 200, json = None\<rparr>)
       (session0\<lparr>state.description := [CHR '' '', CHR 0x09, CHR 0x0A]\<rparr>))) =
     [Fetch ''https://host/superform''
        [(''foto'', FilePart ''photo.jpg'' ''photo.jpg'' ''image/jpeg''),
         (''lat'', TextPart ''40''), (''lng'', TextPart ''-75'')]]"
proof -
  have img: "imageUri session0 = Some ''photo.jpg''" "''photo.jpg'' \<noteq> []"
    by (simp_all add: session0_def)
  have img': "imageUri (session0\<lparr>state.description := [CHR '' '', CHR 0x09, CHR 0x0A]\<rparr>) = Some ''photo.jpg''"
    by (simp add: session0_def)
  have ep: "CREATE_SUPERFORM_ENDPOINT platform0 = ''https://host/superform''"
    and str: "String_of_number platform0 = String_int"
    by (simp_all add: platform0_def)
  have name: "fileName platform0 0 ''photo.jpg'' = ''photo.jpg''"
    by (simp add: fileName_def pop_split_on)
  have mime: "mimeType ''photo.jpg'' = ''image/jpeg''"
    by (simp add: mimeType_def fileExtension_def pop_split_on toLowerCase_def toLowerCase_unit_def)
  have lat: "String_int 40 = ''40''" and lng: "String_int (- 75) = ''-75''"
    by (simp_all add: String_int_def digits_small digits_big)
  have d: "trim ''  Bridge view  '' = ''Bridge view''"
    by (simp add: trim_def isWhiteSpace_def)
  show ?thesis
    using img
      multipart_fields [OF img, of platform0 0 fix0 "FetchResolves \<lparr>status = 200, json = None\<rparr>"]
      multipart_fields [OF img' img(2), of platform0 0 fix0 "FetchResolves \<lparr>status = 200, json = None\<rparr>"]
    by (simp add: name mime lat lng d ep str fix0_def session0_def isWhiteSpace_def)
qed

text \<open>
  C6, as amended. A successful submission (status 200 to 299) shows the confirmation
  summary with one button, OK, and returns with the image and the description as they
  were and the location of the submit-time fix; the image, the description and the
  location are cleared when the user presses OK.
\<close>

theorem reset_on_confirmation:
  assumes "imageUri s = Some u" and "u \<noteq> []" and "ok response"
  shows "alerts (snd (submitForm P now (Some cur) (FetchResolves response) s)) =
           [Alert ''Formulario enviado''
              (summary P u (trim (state.description s)) (superFormPayload u (trim (state.description s)) cur))
              [(''OK'', ClearForm)]] \<and>
         fst (submitForm P now (Some cur) (FetchResolves response) s) =
           s\<lparr>location := Some cur, isSubmitting := False\<rparr> \<and>
         fst (press ''OK''
               (Alert ''Formulario enviado''
                  (summary P u (trim (state.description s)) (superFormPayload u (trim (state.description s)) cur))
                  [(''OK'', ClearForm)])
               (fst (submitForm P now (Some cur) (FetchResolves response) s))) =
           s\<lparr>imageUri := None, state.description := [], location := None, isSubmitting := False\<rparr>"
  using assms by (simp add: submitForm_http_ok alerts_def)

theorem reset_on_confirmation_witness:
  "imageUri session0 = Some ''photo.jpg'' \<and> ''photo.jpg'' \<noteq> [] \<and>
   ok \<lparr>status = 200, json = (None :: int ResponsePayload option)\<rparr> \<and>
   alerts (snd (submitForm platform0 0 (Some fix0) (FetchResolves \<lparr>status = 200, json = None\<rparr>) session0)) =
     [Alert ''Formulario enviado''
        (''Foto: Incluida'' @ [CHR 0x0A] @ ''Descripci'' @ [CHR 0xF3] @ ''n: Bridge view'' @ [CHR 0x0A] @
         ''Latitud: 40'' @ [CHR 0x0A] @ ''Longitud: -75'')
        [(''OK'', ClearForm)]] \<and>
   fst (press ''OK''
         (Alert ''Formulario enviado''
            (''Foto: Incluida'' @ [CHR 0x0A] @ ''Descripci'' @ [CHR 0xF3] @ ''n: Bridge view'' @ [CHR 0x0A] @
             ''Latitud: 40'' @ [CHR 0x0A] @ ''Longitud: -75'')
            [(''OK'', ClearForm)])
         (fst (submitForm platform0 0 (Some fix0) (FetchResolves \<lparr>status = 200, json = None\<rparr>) session0))) =
     \<lparr>imageUri = None, description = [], location = None, isSubmitting = False\<rparr>"
proof -
  have img: "imageUri session0 = Some ''photo.jpg''" "''photo.jpg'' \<noteq> []"
    by (simp_all add: session0_def)
  have ok: "ok \<lparr>status = 200, json = (None :: int ResponsePayload option)\<rparr>"
    by (simp add: ok_def)
  have str: "String_of_number platform0 = String_int"
    by (simp add: platform0_def)
  have lat: "String_int 40 = ''40''" and lng: "String_int (- 75) = ''-75''"
    by (simp_all add: String_int_def digits_small digits_big)
  have d: "trim ''  Bridge view  '' = ''Bridge view''"
    by (simp add: trim_def isWhiteSpace_def)
  have sm: "summary platform0 ''photo.jpg'' (trim (state.description session0))
              (superFormPayload ''photo.jpg'' (trim (state.description session0)) fix0) =
            ''Foto: Incluida'' @ [CHR 0x0A] @ ''Descripci'' @ [CHR 0xF3] @ ''n: Bridge view'' @ [CHR 0x0A] @
            ''Latitud: 40'' @ [CHR 0x0A] @ ''Longitud: -75''"
    by (simp add: summary_def superFormPayload_def str lat lng d fix0_def session0_def)
  show ?thesis
    using img ok reset_on_confirmation [OF img ok, of platform0 0 fix0]
    by (simp add: sm)
qed

text \<open>
  C6, as stated, fails: when \<open>submitForm\<close> returns from a successful submission of the
  example session, the image, the description and the location are still set.
\<close>

theorem reset_counterexample:
  "ok \<lparr>status = 200, json = (None :: int ResponsePayload option)\<rparr> \<and>
   imageUri (fst (submitForm platform0 0 (Some fix0) (FetchResolves \<lparr>status = 200, json = None\<rparr>) session0))
     = Some ''photo.jpg'' \<and>
   state.description (fst (submitForm platform0 0 (Some fix0) (FetchResolves \<lparr>status = 200, json = None\<rparr>) session0))
     = ''  Bridge view  '' \<and>
   location (fst (submitForm platform0 0 (Some fix0) (FetchResolves \<lparr>status = 200, json = None\<rparr>) session0))
     = Some fix0"
proof -
  have img: "imageUri session0 = Some ''photo.jpg''" "''photo.jpg'' \<noteq> []"
    by (simp_all add: session0_def)
  have ok: "ok \<lparr>status = 200, json = (None :: int ResponsePayload option)\<rparr>"
    by (simp add: ok_def)
  show ?thesis
    by (simp add: submitForm_http_ok [OF img ok] ok) (simp add: session0_def)
qed

text \<open>
  C7, as amended. The uploaded file name is what follows the last \<open>/\<close> of the image URI
  (the whole URI when it has none; the fallback name is for a missing segment, and
  \<open>split\<close> always gives one). The MIME type is \<open>image/png\<close> exactly when what follows the
  last dot of the file name (the whole name when it has no dot), in lower case, is
  \<open>png\<close>, and \<open>image/jpeg\<close> otherwise. The file part of the posted body carries both.
\<close>

theorem file_name_and_mime_type:
  "fileName P now u = rev (takeWhile (\<lambda>c. c \<noteq> CHR ''/'') (rev u)) \<and>
   mimeType name =
     (if toLowerCase (rev (takeWhile (\<lambda>c. c \<noteq> CHR ''.'') (rev name))) = ''png''
      then ''image/png'' else ''image/jpeg'') \<and>
   (imageUri s = Some u \<and> u \<noteq> [] \<longrightarrow>
      (\<exists>fields. fetches (snd (submitForm P now (Some cur) fetched s)) =
         [Fetch (CREATE_SUPERFORM_ENDPOINT P)
            ((''foto'', FilePart u (fileName P now u) (mimeType (fileName P now u))) # fields)]))"
proof -
  have a: "fileName P now u = rev (takeWhile (\<lambda>c. c \<noteq> CHR ''/'') (rev u))"
    by (simp add: fileName_def pop_split_on)
  have b: "mimeType name =
     (if toLowerCase (rev (takeWhile (\<lambda>c. c \<noteq> CHR ''.'') (rev name))) = ''png''
      then ''image/png'' else ''image/jpeg'')"
    by (simp add: mimeType_def fileExtension_def pop_split_on)
  have c: "\<exists>fields. fetches (snd (submitForm P now (Some cur) fetched s)) =
         [Fetch (CREATE_SUPERFORM_ENDPOINT P)
            ((''foto'', FilePart u (fileName P now u) (mimeType (fileName P now u))) # fields)]"
    if "imageUri s = Some u" "u \<noteq> []"
  proof -
    have "fetches (snd (submitForm P now (Some cur) fetched s)) = [request P now u (state.description s) cur]"
      using that
      by (cases rule: submitForm_cases[where s = s and position = "Some cur" and fetched = fetched])
         (simp_all add: submitForm_rejects submitForm_http_error submitForm_http_ok fetches_def)
    then show ?thesis
      by (simp add: request_def body_def)
  qed
  from a b c show ?thesis by blast
qed

theorem file_name_and_mime_type_witness:
  "fileName platform0 0 ''file:///cache/ImagePicker/photo.PNG'' = ''photo.PNG'' \<and>
   mimeType ''photo.PNG'' = ''image/png'' \<and>
   mimeType ''photo.jpg'' = ''image/jpeg'' \<and>
   imageUri session0 = Some ''photo.jpg'' \<and> ''photo.jpg'' \<noteq> [] \<and>
   (\<exists>fields. fetches (snd (submitForm platform0 0 (Some fix0) (FetchRejects NotAnError) session0)) =
      [Fetch (CREATE_SUPERFORM_ENDPOINT platform0)
         ((''foto'', FilePart ''photo.jpg'' ''photo.jpg'' ''image/jpeg'') # fields)])"
proof -
  have img: "imageUri session0 = Some ''photo.jpg''" "''photo.jpg'' \<noteq> []"
    by (simp_all add: session0_def)
  have n: "fileName platform0 0 ''photo.jpg'' = ''photo.jpg''"
    using file_name_and_mime_type [of platform0 0 "''photo.jpg''", THEN conjunct1] by simp
  have m: "mimeType ''photo.jpg'' = ''image/jpeg''"
    using file_name_and_mime_type [where name = "''photo.jpg''", THEN conjunct2, THEN conjunct1]
    by (simp add: toLowerCase_def toLowerCase_unit_def)
  have m': "mimeType ''photo.PNG'' = ''image/png''"
    using file_name_and_mime_type [where name = "''photo.PNG''", THEN conjunct2, THEN conjunct1]
    by (simp add: toLowerCase_def toLowerCase_unit_def char_of_eq_iff)
  have n': "fileName platform0 0 ''file:///cache/ImagePicker/photo.PNG'' = ''photo.PNG''"
    using file_name_and_mime_type [of platform0 0 "''file:///cache/ImagePicker/photo.PNG''", THEN conjunct1]
    by simp
  have f: "\<exists>fields. fetches (snd (submitForm platform0 0 (Some fix0) (FetchRejects NotAnError) session0)) =
      [Fetch (CREATE_SUPERFORM_ENDPOINT platform0)
         ((''foto'', FilePart ''photo.jpg'' (fileName platform0 0 ''photo.jpg'')
             (mimeType (fileName platform0 0 ''photo.jpg''))) # fields)]"
    using img file_name_and_mime_type [where s = session0 and u = "''photo.jpg''" and P = platform0
        and now = 0 and cur = fix0 and fetched = "FetchRejects NotAnError", THEN conjunct2, THEN conjunct2]
    by blast
  show ?thesis
    using img n' m m' f by (simp add: n)
qed

text \<open>
  C7, as stated, fails: the name \<open>png\<close> has no extension and the name \<open>photo.PNG\<close> has
  an extension other than \<open>png\<close>, so that the claim gives \<open>image/jpeg\<close> for both, and
  the code gives \<open>image/png\<close> for both.
\<close>

theorem mime_type_counterexample:
  "fileName platform0 0 ''file:///cache/png'' = ''png'' \<and>
   spec_extension ''png'' = None \<and>
   spec_mimeType ''png'' = ''image/jpeg'' \<and>
   mimeType ''png'' = ''image/png'' \<and>
   fileName platform0 0 ''file:///cache/photo.PNG'' = ''photo.PNG'' \<and>
   spec_extension ''photo.PNG'' = Some ''PNG'' \<and>
   spec_mimeType ''photo.PNG'' = ''image/jpeg'' \<and>
   mimeType ''photo.PNG'' = ''image/png''"
  by (simp add: fileName_def mimeType_def fileExtension_def pop_split_on spec_mimeType_def
        spec_extension_def toLowerCase_def toLowerCase_unit_def char_of_eq_iff)

text \<open>
  C8. The claim asks for exactly one alert per error. With a photo and a location fetch
  that fails at submit time, \<open>getCurrentLocation\<close> alerts and \<open>submitForm\<close> alerts again
  with the same text: two alerts for one failure.
\<close>

theorem location_failure_alerts_twice:
  "alerts (snd (submitForm platform0 0 None (FetchResolves \<lparr>status = 200, json = None\<rparr>) session0)) =
     [Alert ''Error'' (''No se pudo obtener la ubicaci'' @ [CHR 0xF3] @ ''n'') [],
      Alert ''Error'' (''No se pudo obtener la ubicaci'' @ [CHR 0xF3] @ ''n'') []] \<and>
   length (alerts (snd (submitForm platform0 0 None (FetchResolves \<lparr>status = 200, json = None\<rparr>) session0))) = 2"
proof -
  have img: "imageUri session0 = Some ''photo.jpg''" "''photo.jpg'' \<noteq> []"
    by (simp_all add: session0_def)
  show ?thesis
    by (simp add: submitForm_no_location [OF img] alerts_def)
qed

text \<open>
  C9. A capture that is cancelled or fails leaves the state as it was, sets no image
  and starts nothing; only a failure alerts. A capture with an asset stores its URI and
  starts the location pre-fetch without waiting for it; the pre-fetch, when it runs,
  leaves the image alone and stores the fix it gets.
\<close>

theorem takePicture_frame:
  "((\<forall>asset rest. camera \<noteq> CameraResolves (Assets (asset # rest))) \<longrightarrow>
      fst (takePicture camera s) = s \<and>
      (\<forall>v. SetImageUri v \<notin> set (fst (snd (takePicture camera s)))) \<and>
      snd (snd (takePicture camera s)) = []) \<and>
   alerts (fst (snd (takePicture camera s))) =
     (if camera = CameraRejects then [Alert ''Error'' ''No se pudo tomar la foto'' []] else []) \<and>
   takePicture (CameraResolves (Assets (asset # rest))) s =
     (s\<lparr>imageUri := Some (uri asset)\<rparr>,
      [LaunchCamera, SetImageUri (Some (uri asset))], [PrefetchLocation]) \<and>
   imageUri (fst (run_task PrefetchLocation position s)) = imageUri s \<and>
   location (fst (run_task PrefetchLocation (Some cur) s)) = Some cur"
proof -
  have a: "fst (takePicture camera s) = s \<and>
      (\<forall>v. SetImageUri v \<notin> set (fst (snd (takePicture camera s)))) \<and>
      snd (snd (takePicture camera s)) = []"
    if "\<forall>asset rest. camera \<noteq> CameraResolves (Assets (asset # rest))"
    using that
    by (auto simp: takePicture_def split: camera_outcome.splits ImagePickerResult.splits list.splits)
  have b: "alerts (fst (snd (takePicture camera s))) =
     (if camera = CameraRejects then [Alert ''Error'' ''No se pudo tomar la foto'' []] else [])"
    by (simp add: takePicture_def alerts_def
          split: camera_outcome.splits ImagePickerResult.splits list.splits)
  have c: "takePicture (CameraResolves (Assets (asset # rest))) s =
     (s\<lparr>imageUri := Some (uri asset)\<rparr>,
      [LaunchCamera, SetImageUri (Some (uri asset))], [PrefetchLocation])"
    by (simp add: takePicture_def)
  have d: "imageUri (fst (run_task PrefetchLocation position s)) = imageUri s"
    by (simp add: getCurrentLocation_def split: option.splits)
  have e: "location (fst (run_task PrefetchLocation (Some cur) s)) = Some cur"
    by (simp add: getCurrentLocation_def)
  from a b c d e show ?thesis by blast
qed

theorem takePicture_frame_witness:
  "fst (takePicture (CameraResolves Canceled) session0) = session0 \<and>
   alerts (fst (snd (takePicture (CameraResolves Canceled) session0))) = [] \<and>
   fst (takePicture CameraRejects session0) = session0 \<and>
   alerts (fst (snd (takePicture CameraRejects session0))) = [Alert ''Error'' ''No se pudo tomar la foto'' []] \<and>
   takePicture (CameraResolves (Assets [\<lparr>uri = ''file:///cache/new.jpg''\<rparr>])) session0 =
     (session0\<lparr>imageUri := Some ''file:///cache/new.jpg''\<rparr>,
      [LaunchCamera, SetImageUri (Some ''file:///cache/new.jpg'')], [PrefetchLocation])"
  using takePicture_frame [of "CameraResolves Canceled" session0 "\<lparr>uri = ''file:///cache/new.jpg''\<rparr>" "[]" None fix0]
        takePicture_frame [of CameraRejects session0 "\<lparr>uri = ''file:///cache/new.jpg''\<rparr>" "[]" None fix0]
  by simp



end
